theory Spec2Isabelle
  imports Complex_Main "HOL-Library.Multiset"
begin

section \<open>Arrays\<close>

text \<open>
  The pipeline works on dense numpy arrays. Two shapes occur: a volume over the lattice,
  of shape \<open>(nx, ny, nz)\<close>, and a volume with a trailing channel axis, of shape
  \<open>(nx, ny, nz, C)\<close>. Both are kept with their shape. The three lattice axes are stored
  flattened in row-major order (the point \<open>(i, j, k)\<close> is at position
  \<open>(i * ny + j) * nz + k\<close>); the channel axis is kept as one list of \<open>C\<close> values
  per lattice point, so that an operation along \<open>axis=-1\<close> is a map over the points.
\<close>

type_synonym dims = "nat \<times> nat \<times> nat"

datatype 'a array3 = Array3 dims "'a list"

datatype 'a array4 = Array4 dims nat "'a list list"

datatype 'a ndarray = A3 "'a array3" | A4 "'a array4"

fun shape3 :: "'a array3 \<Rightarrow> nat list" where
  "shape3 (Array3 (nx, ny, nz) xs) = [nx, ny, nz]"

fun shape4 :: "'a array4 \<Rightarrow> nat list" where
  "shape4 (Array4 (nx, ny, nz) c ps) = [nx, ny, nz, c]"

fun shape :: "'a ndarray \<Rightarrow> nat list" where
  "shape (A3 a) = shape3 a"
| "shape (A4 a) = shape4 a"

definition ndim :: "'a ndarray \<Rightarrow> nat" where
  "ndim a = length (shape a)"


fun nchan :: "'a array4 \<Rightarrow> nat" where
  "nchan (Array4 d c ps) = c"


fun npoints :: "dims \<Rightarrow> nat" where
  "npoints (nx, ny, nz) = nx * ny * nz"

text \<open>An array value is well formed when its contents fill its shape.\<close>

fun wf_array3 :: "'a array3 \<Rightarrow> bool" where
  "wf_array3 (Array3 d xs) = (length xs = npoints d)"

fun wf_array4 :: "'a array4 \<Rightarrow> bool" where
  "wf_array4 (Array4 d c ps) = (length ps = npoints d \<and> list_all (\<lambda>v. length v = c) ps)"

section \<open>Floating-point values\<close>

text \<open>
  An entry of a float64 array, or a Python float: a finite number, one of the two
  infinities, or \<open>nan\<close>. Every finite float64 is a real number, so the finite values
  are kept as reals; nothing below assumes that a real is representable. The two zeros
  of IEEE arithmetic compare equal and are not told apart.
\<close>

datatype npfloat = is_Finite: Finite (the_real: real) | PosInf | NegInf | NaN

text \<open>The IEEE comparisons \<open><\<close> and \<open><=\<close>: false whenever an operand is \<open>nan\<close>.\<close>

fun np_less :: "npfloat \<Rightarrow> npfloat \<Rightarrow> bool" where
  "np_less NaN y = False"
| "np_less x NaN = False"
| "np_less PosInf y = False"
| "np_less x NegInf = False"
| "np_less NegInf y = True"
| "np_less x PosInf = True"
| "np_less (Finite x) (Finite y) = (x < y)"

fun np_le :: "npfloat \<Rightarrow> npfloat \<Rightarrow> bool" where
  "np_le NaN y = False"
| "np_le x NaN = False"
| "np_le NegInf y = True"
| "np_le x PosInf = True"
| "np_le PosInf y = False"
| "np_le x NegInf = False"
| "np_le (Finite x) (Finite y) = (x \<le> y)"

text \<open>
  \<open>np.maximum\<close> and \<open>np.minimum\<close> of two values: exact, and \<open>nan\<close> as soon as one
  operand is \<open>nan\<close>.
\<close>

definition np_maximum :: "npfloat \<Rightarrow> npfloat \<Rightarrow> npfloat" where
  "np_maximum a b = (if a = NaN \<or> b = NaN then NaN else if np_less a b then b else a)"

definition np_minimum :: "npfloat \<Rightarrow> npfloat \<Rightarrow> npfloat" where
  "np_minimum a b = (if a = NaN \<or> b = NaN then NaN else if np_less b a then b else a)"

text \<open>
  \<open>np.sum\<close> and \<open>np.mean\<close> of a row of floats round, and the order in which numpy adds
  the entries is its own. Their results are not computed here: the two functions are
  taken as they are, as functions from the row to the float numpy returns for it, and
  every statement below holds for whatever these functions are.
\<close>

record numpy =
  np_sum :: "npfloat list \<Rightarrow> npfloat"
  np_mean :: "npfloat list \<Rightarrow> npfloat"

section \<open>Errors\<close>

text \<open>
  The exceptions the modelled code can raise, named after the Python exception and what
  it reports. The two \<open>ValueError\<close>s that carry names hold the array that the message
  formats (the invalid probe types, or \<open>energy_refs[not_calculated]\<close>).
  \<open>Raised_by_count_psp\<close> stands for any exception raised inside the counting function
  that the buriedness analysis calls.
\<close>

datatype error =
    ValueError_not_a_file
  | ValueError_parse_pdbqt
  | ValueError_invalid_probes "string list"
  | ValueError_mode_not_recognized
  | ValueError_not_calculated "string list"
  | ValueError_zero_size_reduction
  | IndexError_boolean_index
  | KeyError
  | AttributeError string
  | Raised_by_count_psp string

section \<open>numpy operations used by the pipeline\<close>

text \<open>\<open>np.isin(element, test_elements, invert=...)\<close> on one-dimensional arrays.\<close>

definition np_isin :: "'a list \<Rightarrow> 'a list \<Rightarrow> bool \<Rightarrow> bool list" where
  "np_isin element test_elements invert =
     map (\<lambda>x. if invert then x \<notin> set test_elements else x \<in> set test_elements) element"

definition np_any :: "bool list \<Rightarrow> bool" where
  "np_any bs = list_ex (\<lambda>b. b) bs"

text \<open>Boolean-mask indexing \<open>xs[mask]\<close> of a one-dimensional array by a mask of its length.\<close>

definition bool_index :: "'a list \<Rightarrow> bool list \<Rightarrow> 'a list" where
  "bool_index xs sel = map fst (filter snd (zip xs sel))"

text \<open>
  \<open>a[..., mask]\<close>: boolean-mask indexing along the last axis. numpy raises
  \<open>IndexError\<close> when the mask's length is not the length of that axis. The result is a
  new array whose last axis has one entry per \<open>True\<close> of the mask.
\<close>

fun index_last_axis :: "'a array4 \<Rightarrow> bool list \<Rightarrow> error + 'a array4" where
  "index_last_axis (Array4 d c ps) sel =
     (if length sel \<noteq> c then Inl IndexError_boolean_index
      else Inr (Array4 d (length (filter (\<lambda>b. b) sel)) (map (\<lambda>v. bool_index v sel) ps)))"

text \<open>
  The four reductions of one row. \<open>np.max\<close> and \<open>np.min\<close> fold \<open>np.maximum\<close> and
  \<open>np.minimum\<close> over the row from its first entry. \<open>np.sum\<close> of nothing is \<open>0\<close> and
  \<open>np.mean\<close> of nothing is \<open>nan\<close>; on a row with entries they are numpy's sum and
  mean. (\<open>np.max\<close> and \<open>np.min\<close> of nothing raise; see \<open>reduce_last_axis\<close>.)
\<close>

definition max_row :: "npfloat list \<Rightarrow> npfloat" where
  "max_row xs = (case xs of [] \<Rightarrow> NaN | x # ys \<Rightarrow> fold (\<lambda>y r. np_maximum r y) ys x)"

definition min_row :: "npfloat list \<Rightarrow> npfloat" where
  "min_row xs = (case xs of [] \<Rightarrow> NaN | x # ys \<Rightarrow> fold (\<lambda>y r. np_minimum r y) ys x)"

definition mean_row :: "numpy \<Rightarrow> npfloat list \<Rightarrow> npfloat" where
  "mean_row np xs = (case xs of [] \<Rightarrow> NaN | x # ys \<Rightarrow> np_mean np xs)"

definition sum_row :: "numpy \<Rightarrow> npfloat list \<Rightarrow> npfloat" where
  "sum_row np xs = (case xs of [] \<Rightarrow> Finite 0 | x # ys \<Rightarrow> np_sum np xs)"

datatype np_reduction = Np_max | Np_min | Np_mean | Np_sum

fun reduce_row :: "numpy \<Rightarrow> np_reduction \<Rightarrow> npfloat list \<Rightarrow> npfloat" where
  "reduce_row np Np_max xs = max_row xs"
| "reduce_row np Np_min xs = min_row xs"
| "reduce_row np Np_mean xs = mean_row np xs"
| "reduce_row np Np_sum xs = sum_row np xs"

text \<open>
  A reduction along \<open>axis=-1\<close>. \<open>np.max\<close> and \<open>np.min\<close> have no identity and raise
  \<open>ValueError\<close> when the reduced axis has length zero; the error is raised for the
  array as a whole.
\<close>

fun reduce_last_axis :: "numpy \<Rightarrow> np_reduction \<Rightarrow> npfloat array4 \<Rightarrow> error + npfloat array3" where
  "reduce_last_axis np f (Array4 d c ps) =
     (if c = 0 \<and> (f = Np_max \<or> f = Np_min) then Inl ValueError_zero_size_reduction
      else Inr (Array3 d (map (reduce_row np f) ps)))"

text \<open>The elementwise comparison \<open>energy_vals < energy_cutoff\<close>; it builds a new array.\<close>

fun less_cutoff :: "npfloat ndarray \<Rightarrow> npfloat \<Rightarrow> bool ndarray" where
  "less_cutoff (A3 (Array3 d xs)) c = A3 (Array3 d (map (\<lambda>x. np_less x c) xs))"
| "less_cutoff (A4 (Array4 d n ps)) c = A4 (Array4 d n (map (map (\<lambda>x. np_less x c)) ps))"

text \<open>\<open>np.count_nonzero\<close> of a boolean array: the number of its true entries.\<close>

fun count_nonzero :: "bool ndarray \<Rightarrow> nat" where
  "count_nonzero (A3 (Array3 d xs)) = length (filter (\<lambda>b. b) xs)"
| "count_nonzero (A4 (Array4 d n ps)) = length (filter (\<lambda>b. b) (concat ps))"

section \<open>Object state and the store of result arrays\<close>

text \<open>
  Result arrays are objects: the instance holds references to them, and callers may hold
  references to copies. The store is the list of all boolean arrays allocated so far; an
  address is a position in it. Allocation appends and never touches an existing entry.
\<close>

type_synonym addr = nat

type_synonym store = "bool ndarray list"

definition alloc :: "store \<Rightarrow> bool ndarray \<Rightarrow> addr \<times> store" where
  "alloc h a = (length h, h @ [a])"

text \<open>
  The instance attributes of \<open>T2FPharm\<close> that the two analyses read or write. The
  attributes \<open>_grid_vacancy\<close> and \<open>_grid_buriedness\<close> are not set by \<open>__init__\<close>;
  \<open>None\<close> stands for an attribute that does not exist yet.
\<close>

record t2fpharm =
  type_probes :: "string list"
  spacing_grid_points :: real
  type_energy_grids :: "string list"
  grid :: "npfloat array4"
  grid_vacancy :: "addr option"
  grid_buriedness :: "addr option"

text \<open>
  \<open>__init__\<close>. What it obtains from collaborators that are not part of these sources is
  passed in: whether the path is a file, whether \<open>parse_pdbqt\<close> succeeded, the column
  \<open>DATA_AUTODOCK_ATOM_TYPE.type.values\<close>, and the array returned by
  \<open>autogrid.routine_run_autogrid\<close>.
\<close>

definition init ::
  "bool \<Rightarrow> bool \<Rightarrow> string list \<Rightarrow> string list \<Rightarrow> real \<Rightarrow> npfloat array4 \<Rightarrow> error + t2fpharm" where
  "init is_file parse_ok autodock_atom_types probes spacing autogrid_result =
     (if \<not> is_file then Inl ValueError_not_a_file
      else if \<not> parse_ok then Inl ValueError_parse_pdbqt
      else
        let probe_is_invalid = np_isin probes autodock_atom_types True in
        if np_any probe_is_invalid
        then Inl (ValueError_invalid_probes (bool_index probes probe_is_invalid))
        else Inr \<lparr> type_probes = probes,
                   spacing_grid_points = spacing,
                   type_energy_grids = probes @ [''e'', ''d''],
                   grid = autogrid_result,
                   grid_vacancy = None,
                   grid_buriedness = None \<rparr>)"

section \<open>Vacancy from energy\<close>

definition reducing_op :: "string \<rightharpoonup> np_reduction" where
  "reducing_op = map_of [(''max'', Np_max), (''min'', Np_min), (''avg'', Np_mean), (''sum'', Np_sum)]"

text \<open>\<open>mode not in reducing_op\<close>, for a mode that is a string or \<open>None\<close>.\<close>

fun mode_not_in_reducing_op :: "string option \<Rightarrow> bool" where
  "mode_not_in_reducing_op None = True"
| "mode_not_in_reducing_op (Some m) = (reducing_op m = None)"

text \<open>
  The array assigned to \<open>self._grid_vacancy\<close>. The argument \<open>energy_refs\<close> is modelled at
  its declared type, a sequence of names, so the \<open>isinstance(energy_refs, Sequence)\<close>
  branch is the one taken (a bare string is a sequence too, and numpy reads it as one
  name). The lookup \<open>reducing_op[mode]\<close> happens only on the reducing branch; a missing
  key would be a \<open>KeyError\<close> there, which the membership test before it excludes.
\<close>

definition energy_vals_of ::
  "numpy \<Rightarrow> string option \<Rightarrow> npfloat array4 \<Rightarrow> error + npfloat ndarray" where
  "energy_vals_of np mode subgrid_ref =
     (if nchan subgrid_ref = 1 then Inr (A4 subgrid_ref)
      else
        (case mode of
           None \<Rightarrow> Inl KeyError
         | Some m \<Rightarrow>
            (case reducing_op m of
               None \<Rightarrow> Inl KeyError
             | Some f \<Rightarrow>
                (case reduce_last_axis np f subgrid_ref of
                   Inl e \<Rightarrow> Inl e
                 | Inr r \<Rightarrow> Inr (A3 r)))))"

definition vacancy_of ::
  "numpy \<Rightarrow> t2fpharm \<Rightarrow> string list \<Rightarrow> npfloat \<Rightarrow> string option \<Rightarrow> error + bool ndarray" where
  "vacancy_of np self energy_refs energy_cutoff mode =
     (if mode_not_in_reducing_op mode then Inl ValueError_mode_not_recognized
      else
        let not_calculated = np_isin energy_refs (type_energy_grids self) True in
        if np_any not_calculated
        then Inl (ValueError_not_calculated (bool_index energy_refs not_calculated))
        else
          (case index_last_axis (grid self) (np_isin (type_energy_grids self) energy_refs False) of
             Inl e \<Rightarrow> Inl e
           | Inr subgrid_ref \<Rightarrow>
              (case energy_vals_of np mode subgrid_ref of
                 Inl e \<Rightarrow> Inl e
               | Inr energy_vals \<Rightarrow> Inr (less_cutoff energy_vals energy_cutoff))))"

text \<open>
  \<open>calculate_vacancy_from_energy\<close>: the new array is allocated, the attribute is rebound
  to it, and with \<open>return_copy\<close> a second array with the same contents is allocated and
  its address returned; otherwise \<open>None\<close> is returned.
\<close>

definition calculate_vacancy_from_energy ::
  "numpy \<Rightarrow> t2fpharm \<Rightarrow> store \<Rightarrow> string list \<Rightarrow> npfloat \<Rightarrow> string option \<Rightarrow> bool
     \<Rightarrow> error + (t2fpharm \<times> store \<times> addr option)" where
  "calculate_vacancy_from_energy np self h energy_refs energy_cutoff mode return_copy =
     (case vacancy_of np self energy_refs energy_cutoff mode of
        Inl e \<Rightarrow> Inl e
      | Inr v \<Rightarrow>
         (let (a, h1) = alloc h v;
              self1 = self\<lparr>grid_vacancy := Some a\<rparr>
          in if return_copy
             then (let (b, h2) = alloc h1 (h1 ! a) in Inr (self1, h2, Some b))
             else Inr (self1, h1, None)))"

section \<open>Buriedness from the PSP count\<close>

text \<open>
  The function \<open>count_psp_events_from_vacancy_tensor\<close> of \<open>opencadd.bindingsite.utils\<close>
  is imported and called by the pipeline but is not among these sources. It is taken as
  a parameter: a function from the vacancy array, the spacing, the number of directions
  and the maximum length to the array of counts it returns, or to the exception it
  raises. Nothing is assumed about the counts, their shape or their sign.
\<close>

type_synonym psp_counter = "bool ndarray \<Rightarrow> real \<Rightarrow> int \<Rightarrow> real \<Rightarrow> error + int ndarray"

text \<open>
  \<open>calculate_buriedness_from_psp_count\<close>. Reading \<open>self._grid_vacancy\<close> while the
  attribute does not exist raises \<open>AttributeError\<close>, before the counting function is
  called. The comparison \<open>grid_psp_counts >= psp_count_min\<close> is applied to every entry
  of the count array.
\<close>

definition buriedness_of ::
  "psp_counter \<Rightarrow> t2fpharm \<Rightarrow> store \<Rightarrow> int \<Rightarrow> real \<Rightarrow> int \<Rightarrow> error + bool ndarray" where
  "buriedness_of count_psp self h num_directions psp_len_max psp_count_min =
     (case grid_vacancy self of
        None \<Rightarrow> Inl (AttributeError ''_grid_vacancy'')
      | Some v \<Rightarrow>
         (case count_psp (h ! v) (spacing_grid_points self) num_directions psp_len_max of
            Inl e \<Rightarrow> Inl e
          | Inr grid_psp_counts \<Rightarrow>
             Inr (map_ndarray (\<lambda>n. psp_count_min \<le> n) grid_psp_counts)))"

definition calculate_buriedness_from_psp_count ::
  "psp_counter \<Rightarrow> t2fpharm \<Rightarrow> store \<Rightarrow> int \<Rightarrow> real \<Rightarrow> int \<Rightarrow> bool
     \<Rightarrow> error + (t2fpharm \<times> store \<times> addr option)" where
  "calculate_buriedness_from_psp_count count_psp self h num_directions psp_len_max psp_count_min
       return_copy =
     (case buriedness_of count_psp self h num_directions psp_len_max psp_count_min of
        Inl e \<Rightarrow> Inl e
      | Inr v \<Rightarrow>
         (let (a, h1) = alloc h v;
              self1 = self\<lparr>grid_buriedness := Some a\<rparr>
          in if return_copy
             then (let (b, h2) = alloc h1 (h1 ! a) in Inr (self1, h2, Some b))
             else Inr (self1, h1, None)))"

section \<open>Reading results\<close>


text \<open>The array an attribute refers to, when the attribute exists.\<close>

definition deref :: "store \<Rightarrow> addr option \<Rightarrow> bool ndarray option" where
  "deref h r = (case r of None \<Rightarrow> None | Some a \<Rightarrow> if a < length h then Some (h ! a) else None)"


section \<open>The classification as the specification words it\<close>


definition named_values :: "string list \<Rightarrow> string list \<Rightarrow> 'a list \<Rightarrow> 'a list" where
  "named_values channel_names names vs =
     map snd (filter (\<lambda>(n, v). n \<in> set channel_names) (zip names vs))"


section \<open>A small instance\<close>

text \<open>
  A stand-in for numpy's sum and mean in the instance below: the exact sum and the exact
  mean of a row of finite values. float64 arithmetic returns exactly these whenever they
  and the partial sums are representable, which holds for the rows of the instance: their
  entries are multiples of \<open>1/8\<close> between \<open>0\<close> and \<open>1\<close>, and at most two are added.
\<close>

definition exact_sum :: "npfloat list \<Rightarrow> npfloat" where
  "exact_sum xs = (if list_all is_Finite xs then Finite (sum_list (map the_real xs)) else NaN)"

definition exact_mean :: "npfloat list \<Rightarrow> npfloat" where
  "exact_mean xs =
     (if list_all is_Finite xs then Finite (sum_list (map the_real xs) / real (length xs)) else NaN)"

definition exact_np :: numpy where
  "exact_np = \<lparr> np_sum = exact_sum, np_mean = exact_mean \<rparr>"

text \<open>
  A stand-in for the counting function, which is not among the sources, for use in the
  instance below: it reports one event at every vacant entry and none at any other. The
  statements that are instantiated with it hold for every counting function.
\<close>

definition one_event_where_vacant :: psp_counter where
  "one_event_where_vacant vacancy spacing num_directions psp_len_max =
     Inr (map_ndarray (\<lambda>b. if b then 1 else 0) vacancy)"

text \<open>
  A grid of three lattice points in a row along the z-axis, with one probe channel and
  the electrostatic and desolvation channels, as \<open>__init__\<close> leaves it; and what the
  classifications below leave in the store.
\<close>

definition demo_grid :: "npfloat array4" where
  "demo_grid = Array4 (1, 1, 3) 3
     [[Finite 1, Finite (1 / 4), Finite (1 / 8)],
      [Finite (1 / 8), Finite (1 / 4), Finite (3 / 8)],
      [Finite 1, Finite (1 / 4), Finite (1 / 8)]]"

definition demo :: t2fpharm where
  "demo = \<lparr> type_probes = [''A''],
            spacing_grid_points = 1,
            type_energy_grids = [''A'', ''e'', ''d''],
            grid = demo_grid,
            grid_vacancy = None,
            grid_buriedness = None \<rparr>"

definition demo_classified :: t2fpharm where
  "demo_classified = demo\<lparr>grid_vacancy := Some 0\<rparr>"

definition demo_vacancy :: "bool ndarray" where
  "demo_vacancy = A3 (Array3 (1, 1, 3) [False, True, False])"

definition demo_vacancy_single :: "bool ndarray" where
  "demo_vacancy_single = A4 (Array4 (1, 1, 3) 1 [[False], [True], [False]])"

definition demo_vacancy_low :: "bool ndarray" where
  "demo_vacancy_low = A3 (Array3 (1, 1, 3) [False, False, False])"

definition demo_buried :: "bool ndarray" where
  "demo_buried = A3 (Array3 (1, 1, 3) [False, True, False])"

definition demo_analysed :: t2fpharm where
  "demo_analysed = demo_classified\<lparr>grid_buriedness := Some 2\<rparr>"

section \<open>The store: what a call allocates and what it returns\<close>

lemma calculate_vacancy_Inr:
  "calculate_vacancy_from_energy np self h refs c m rc = Inr (s1, h1, ret) \<longleftrightarrow>
     (\<exists>v. vacancy_of np self refs c m = Inr v
        \<and> s1 = self\<lparr>grid_vacancy := Some (length h)\<rparr>
        \<and> h1 = (if rc then h @ [v, v] else h @ [v])
        \<and> ret = (if rc then Some (Suc (length h)) else None))"
  by (auto simp: calculate_vacancy_from_energy_def alloc_def nth_append split: sum.splits)

lemma calculate_buriedness_Inr:
  "calculate_buriedness_from_psp_count count_psp self h nd len cnt rc = Inr (s1, h1, ret) \<longleftrightarrow>
     (\<exists>v. buriedness_of count_psp self h nd len cnt = Inr v
        \<and> s1 = self\<lparr>grid_buriedness := Some (length h)\<rparr>
        \<and> h1 = (if rc then h @ [v, v] else h @ [v])
        \<and> ret = (if rc then Some (Suc (length h)) else None))"
  by (auto simp: calculate_buriedness_from_psp_count_def alloc_def nth_append split: sum.splits)

section \<open>The small instance, evaluated\<close>

lemmas demo_simps =
  vacancy_of_def demo_def demo_grid_def reducing_op_def np_isin_def np_any_def
  energy_vals_of_def bool_index_def Let_def
  max_row_def min_row_def mean_row_def sum_row_def np_maximum_def np_minimum_def
  exact_np_def exact_sum_def exact_mean_def

lemma demo_vacancy_of_sum:
  "vacancy_of exact_np demo [''A'', ''e''] (Finite (1 / 2)) (Some ''sum'') = Inr demo_vacancy"
  by (simp add: demo_simps demo_vacancy_def)

lemma demo_vacancy_of_single:
  "vacancy_of np demo [''A''] (Finite (1 / 2)) (Some ''sum'') = Inr demo_vacancy_single"
  by (simp add: demo_simps demo_vacancy_single_def)

lemma demo_classify:
  "calculate_vacancy_from_energy exact_np demo [] [''A'', ''e''] (Finite (1 / 2)) (Some ''sum'') rc
     = Inr (demo_classified, if rc then [demo_vacancy, demo_vacancy] else [demo_vacancy],
            if rc then Some 1 else None)"
  by (simp add: calculate_vacancy_Inr demo_vacancy_of_sum demo_classified_def)

lemma demo_classify_copy:
  "calculate_vacancy_from_energy exact_np demo [] [''A'', ''e''] (Finite (1 / 2)) (Some ''sum'') True
     = Inr (demo_classified, [demo_vacancy, demo_vacancy], Some 1)"
  using demo_classify [of True] by simp

lemma demo_classify_low:
  "calculate_vacancy_from_energy exact_np demo [] [''A'', ''e''] (Finite (1 / 4)) (Some ''sum'') False
     = Inr (demo_classified, [demo_vacancy_low], None)"
proof -
  have "vacancy_of exact_np demo [''A'', ''e''] (Finite (1 / 4)) (Some ''sum'') = Inr demo_vacancy_low"
    by (simp add: demo_simps demo_vacancy_low_def)
  then show ?thesis by (simp add: calculate_vacancy_Inr demo_classified_def)
qed

lemma demo_classify_single:
  "calculate_vacancy_from_energy np demo [] [''A''] (Finite (1 / 2)) (Some ''sum'') False
     = Inr (demo_classified, [demo_vacancy_single], None)"
  by (simp add: calculate_vacancy_Inr demo_vacancy_of_single demo_classified_def)

lemma demo_buriedness_of:
  "h ! 0 = demo_vacancy \<Longrightarrow>
   buriedness_of one_event_where_vacant demo_classified h 3 2 1 = Inr demo_buried"
  by (simp add: buriedness_of_def demo_classified_def demo_def one_event_where_vacant_def
      demo_vacancy_def demo_buried_def)

lemma demo_analyse_copy:
  "calculate_buriedness_from_psp_count one_event_where_vacant demo_classified
       [demo_vacancy, demo_vacancy] 3 2 1 True
     = Inr (demo_analysed, [demo_vacancy, demo_vacancy, demo_buried, demo_buried], Some 3)"
  using demo_buriedness_of [of "[demo_vacancy, demo_vacancy]"]
  by (simp add: calculate_buriedness_Inr demo_analysed_def)

section \<open>Buriedness needs a vacancy volume\<close>

lemma init_no_vacancy: "init f p ts pr sp g = Inr self \<Longrightarrow> grid_vacancy self = None"
  by (auto simp: init_def Let_def split: if_splits)

lemma buriedness_of_unset:
  "grid_vacancy self = None \<Longrightarrow>
     buriedness_of count_psp self h nd len cnt = Inl (AttributeError ''_grid_vacancy'')"
  by (simp add: buriedness_of_def)

text \<open>
  C3. On an instance as \<open>__init__\<close> returns it, that is before any vacancy
  classification, buriedness analysis fails: reading the attribute \<open>_grid_vacancy\<close>, which
  does not exist yet, raises \<open>AttributeError\<close> (the error the specification calls
  \<open>PrecomputedStateMissingError\<close>). No volume is computed, stored or returned, whatever
  the parameters and whatever the counting function is.
\<close>

theorem buriedness_before_vacancy_fails:
  assumes "init is_file parse_ok autodock_atom_types probes spacing autogrid_result = Inr self"
  shows "calculate_buriedness_from_psp_count count_psp self h num_directions psp_len_max
           psp_count_min return_copy = Inl (AttributeError ''_grid_vacancy'')"
  using init_no_vacancy [OF assms]
  by (simp add: calculate_buriedness_from_psp_count_def buriedness_of_unset)

theorem buriedness_before_vacancy_fails_witness:
  "init True True [''A'', ''C''] [''A''] 1 demo_grid = Inr demo
   \<and> calculate_buriedness_from_psp_count one_event_where_vacant demo [] 7 10 4 False
       = Inl (AttributeError ''_grid_vacancy'')"
proof -
  have i: "init True True [''A'', ''C''] [''A''] 1 demo_grid = Inr demo"
    by (simp add: init_def demo_def np_isin_def np_any_def)
  show ?thesis
    using i buriedness_before_vacancy_fails [OF i, of one_event_where_vacant "[]" 7 10 4 False]
    by simp
qed

section \<open>Unknown channel names\<close>

lemma bool_index_invert:
  "bool_index refs (np_isin refs names True) = filter (\<lambda>n. n \<notin> set names) refs"
  by (induction refs) (auto simp: bool_index_def np_isin_def)

lemma np_any_invert: "np_any (np_isin refs names True) \<longleftrightarrow> \<not> set refs \<subseteq> set names"
  by (auto simp: np_any_def np_isin_def list_ex_iff)

text \<open>
  C4, as amended. A classification call with a recognised reduction mode in which at
  least one requested name is not a configured channel fails with the \<open>ValueError\<close> that
  reports the grids that were not calculated (the specification's
  \<open>UnknownChannelError\<close>). The error carries every requested name that is not configured,
  in the order requested, and not only the first one. The call fails before anything is
  allocated or assigned, so no vacancy volume is produced.
\<close>

theorem unknown_channels_all_reported:
  assumes "\<not> mode_not_in_reducing_op mode"
    and "\<not> set energy_refs \<subseteq> set (type_energy_grids self)"
  shows "calculate_vacancy_from_energy np self h energy_refs energy_cutoff mode return_copy
           = Inl (ValueError_not_calculated
                    (filter (\<lambda>n. n \<notin> set (type_energy_grids self)) energy_refs))"
  using assms
  by (simp add: calculate_vacancy_from_energy_def vacancy_of_def np_any_invert bool_index_invert)

theorem unknown_channels_all_reported_witness:
  "\<not> mode_not_in_reducing_op (Some ''avg'')
   \<and> \<not> set [''A'', ''X'', ''e'', ''Y''] \<subseteq> set (type_energy_grids demo)
   \<and> calculate_vacancy_from_energy exact_np demo [] [''A'', ''X'', ''e'', ''Y''] (Finite (1 / 2))
         (Some ''avg'') True
       = Inl (ValueError_not_calculated [''X'', ''Y''])"
proof -
  have m: "\<not> mode_not_in_reducing_op (Some ''avg'')" by (simp add: reducing_op_def)
  have n: "\<not> set [''A'', ''X'', ''e'', ''Y''] \<subseteq> set (type_energy_grids demo)"
    by (simp add: demo_def)
  show ?thesis
    using m n unknown_channels_all_reported [OF m n, of exact_np "[]" "Finite (1 / 2)" True]
    by (simp add: demo_def)
qed

text \<open>
  The mode is tested before the names: a call with the unknown name \<open>X\<close> and the mode
  \<open>None\<close> fails with the mode error, which lists no name.
\<close>

theorem unknown_channel_hidden_by_mode_error:
  "\<not> set [''A'', ''X''] \<subseteq> set (type_energy_grids demo)
   \<and> calculate_vacancy_from_energy exact_np demo [] [''A'', ''X''] (Finite (1 / 2)) None False
       = Inl ValueError_mode_not_recognized"
  by (simp add: calculate_vacancy_from_energy_def vacancy_of_def demo_def)

section \<open>One channel\<close>

text \<open>
  C5, evaluated on the small instance: with one channel name in a list and the mode
  \<open>None\<close>, which the signature admits, the membership test on the mode still runs and
  the call raises \<open>ValueError\<close>; with the mode \<open>sum\<close> the same call succeeds. The mode
  is therefore not ignored for a single channel.
\<close>

theorem single_channel_mode_still_checked:
  "calculate_vacancy_from_energy np demo [] [''A''] (Finite (1 / 2)) None False
     = Inl ValueError_mode_not_recognized
   \<and> calculate_vacancy_from_energy np demo [] [''A''] (Finite (1 / 2)) (Some ''sum'') False
     = Inr (demo_classified, [demo_vacancy_single], None)"
proof -
  have "calculate_vacancy_from_energy np demo [] [''A''] (Finite (1 / 2)) None False
          = Inl ValueError_mode_not_recognized"
    by (simp add: calculate_vacancy_from_energy_def vacancy_of_def)
  then show ?thesis using demo_classify_single by simp
qed

text \<open>
  C2, evaluated on the small instance: the grid has shape \<open>(1, 1, 3, 3)\<close>, and classifying
  by the single channel \<open>A\<close> stores a volume of shape \<open>(1, 1, 3, 1)\<close>, with four
  dimensions: the trailing axis of the selected subgrid is kept.
\<close>

theorem single_channel_volume_is_4d:
  "shape4 (grid demo) = [1, 1, 3, 3]
   \<and> calculate_vacancy_from_energy np demo [] [''A''] (Finite (1 / 2)) (Some ''sum'') False
       = Inr (demo_classified, [demo_vacancy_single], None)
   \<and> deref [demo_vacancy_single] (grid_vacancy demo_classified) = Some demo_vacancy_single
   \<and> shape demo_vacancy_single = [1, 1, 3, 1]
   \<and> ndim demo_vacancy_single = 4"
proof -
  have "shape4 (grid demo) = [1, 1, 3, 3]"
    by (simp add: demo_def demo_grid_def)
  moreover have "deref [demo_vacancy_single] (grid_vacancy demo_classified) = Some demo_vacancy_single"
    by (simp add: deref_def demo_classified_def)
  moreover have "shape demo_vacancy_single = [1, 1, 3, 1]"
    by (simp add: demo_vacancy_single_def)
  moreover have "ndim demo_vacancy_single = 4"
    by (simp add: ndim_def demo_vacancy_single_def)
  ultimately show ?thesis using demo_classify_single by simp
qed

section \<open>Monotonicity in the cutoff\<close>

lemma np_less_mono: "np_le c1 c2 \<Longrightarrow> np_less x c1 \<Longrightarrow> np_less x c2"
  by (cases x; cases c1; cases c2) auto

lemma filter_length_mono:
  "(\<And>x. x \<in> set xs \<Longrightarrow> P x \<Longrightarrow> Q x) \<Longrightarrow> length (filter P xs) \<le> length (filter Q xs)"
  by (induction xs) auto

lemma count_nonzero_less_cutoff:
  "count_nonzero (less_cutoff (A3 (Array3 d xs)) c) = length (filter (\<lambda>x. np_less x c) xs)"
  "count_nonzero (less_cutoff (A4 (Array4 d n ps)) c) = length (filter (\<lambda>x. np_less x c) (concat ps))"
  by (simp_all add: filter_map o_def map_concat [symmetric] del: map_concat)

lemma less_cutoff_mono:
  assumes "np_le c1 c2"
  shows "count_nonzero (less_cutoff e c1) \<le> count_nonzero (less_cutoff e c2)"
proof (cases e)
  case (A3 a)
  obtain d xs where "a = Array3 d xs" by (cases a)
  with A3 show ?thesis
    using np_less_mono [OF assms]
    by (simp only: count_nonzero_less_cutoff) (rule filter_length_mono)
next
  case (A4 a)
  obtain d n ps where "a = Array4 d n ps" by (cases a)
  with A4 show ?thesis
    using np_less_mono [OF assms]
    by (simp only: count_nonzero_less_cutoff) (rule filter_length_mono)
qed

lemma vacancy_of_cutoff:
  "vacancy_of np self refs c1 m = Inr v1 \<Longrightarrow>
     \<exists>e. v1 = less_cutoff e c1 \<and> (\<forall>c. vacancy_of np self refs c m = Inr (less_cutoff e c))"
  by (auto simp: vacancy_of_def Let_def split: if_splits sum.splits)

text \<open>
  C8. For a fixed instance, channel selection, mode and \<open>return_copy\<close>: when the
  classification succeeds with a cutoff \<open>c1\<close>, it succeeds with every cutoff \<open>c2\<close> above
  it, and the number of points stored as vacant with \<open>c2\<close> is at least the number stored
  with \<open>c1\<close>.
\<close>

theorem vacancy_count_monotone:
  assumes "np_le c1 c2"
    and "calculate_vacancy_from_energy np self h energy_refs c1 mode return_copy = Inr (s1, h1, r1)"
  shows "\<exists>s2 h2 r2 v1 v2.
           calculate_vacancy_from_energy np self h energy_refs c2 mode return_copy = Inr (s2, h2, r2)
           \<and> deref h1 (grid_vacancy s1) = Some v1
           \<and> deref h2 (grid_vacancy s2) = Some v2
           \<and> count_nonzero v1 \<le> count_nonzero v2"
proof -
  from assms(2) obtain v1 where v1: "vacancy_of np self energy_refs c1 mode = Inr v1"
    and s1: "s1 = self\<lparr>grid_vacancy := Some (length h)\<rparr>"
    and h1: "h1 = (if return_copy then h @ [v1, v1] else h @ [v1])"
    by (auto simp: calculate_vacancy_Inr)
  from vacancy_of_cutoff [OF v1] obtain e where e1: "v1 = less_cutoff e c1"
    and e2: "vacancy_of np self energy_refs c2 mode = Inr (less_cutoff e c2)" by blast
  let ?v2 = "less_cutoff e c2"
  let ?h2 = "if return_copy then h @ [?v2, ?v2] else h @ [?v2]"
  have "calculate_vacancy_from_energy np self h energy_refs c2 mode return_copy
          = Inr (self\<lparr>grid_vacancy := Some (length h)\<rparr>, ?h2,
                 if return_copy then Some (Suc (length h)) else None)"
    using e2 by (simp add: calculate_vacancy_Inr)
  moreover have "deref h1 (grid_vacancy s1) = Some v1"
    using s1 h1 by (simp add: deref_def nth_append)
  moreover have "deref ?h2 (grid_vacancy (self\<lparr>grid_vacancy := Some (length h)\<rparr>)) = Some ?v2"
    by (simp add: deref_def nth_append)
  moreover have "count_nonzero v1 \<le> count_nonzero ?v2"
    using e1 less_cutoff_mono [OF assms(1)] by simp
  ultimately show ?thesis by blast
qed

theorem vacancy_count_monotone_witness:
  "np_le (Finite (1 / 4)) (Finite (1 / 2))
   \<and> calculate_vacancy_from_energy exact_np demo [] [''A'', ''e''] (Finite (1 / 4)) (Some ''sum'') False
       = Inr (demo_classified, [demo_vacancy_low], None)
   \<and> calculate_vacancy_from_energy exact_np demo [] [''A'', ''e''] (Finite (1 / 2)) (Some ''sum'') False
       = Inr (demo_classified, [demo_vacancy], None)
   \<and> count_nonzero demo_vacancy_low = 0 \<and> count_nonzero demo_vacancy = 1
   \<and> (\<exists>s2 h2 r2 v1 v2.
         calculate_vacancy_from_energy exact_np demo [] [''A'', ''e''] (Finite (1 / 2)) (Some ''sum'') False
           = Inr (s2, h2, r2)
         \<and> deref [demo_vacancy_low] (grid_vacancy demo_classified) = Some v1
         \<and> deref h2 (grid_vacancy s2) = Some v2
         \<and> count_nonzero v1 \<le> count_nonzero v2)"
proof -
  have le: "np_le (Finite (1 / 4)) (Finite (1 / 2))" by simp
  have hi: "calculate_vacancy_from_energy exact_np demo [] [''A'', ''e''] (Finite (1 / 2)) (Some ''sum'') False
       = Inr (demo_classified, [demo_vacancy], None)"
    using demo_classify [of False] by simp
  have n: "count_nonzero demo_vacancy_low = 0" "count_nonzero demo_vacancy = 1"
    by (simp_all add: demo_vacancy_low_def demo_vacancy_def)
  show ?thesis
    using le demo_classify_low hi n vacancy_count_monotone [OF le demo_classify_low]
    by (intro conjI)
qed

section \<open>What is returned and what is shared\<close>

text \<open>
  C10. A successful call of either method stores the array it computed under the
  instance's attribute. It returns \<open>None\<close> exactly when \<open>return_copy\<close> is false; when
  \<open>return_copy\<close> is true it returns a reference, different from the attribute's, to an
  array with the same contents.
\<close>

theorem return_value_follows_return_copy:
  "(calculate_vacancy_from_energy np self h refs c m rc = Inr (s1, h1, ret) \<longrightarrow>
      (ret = None) = (\<not> rc) \<and>
      (\<exists>v. vacancy_of np self refs c m = Inr v \<and> deref h1 (grid_vacancy s1) = Some v
          \<and> (rc \<longrightarrow> deref h1 ret = Some v \<and> ret \<noteq> grid_vacancy s1)))
   \<and> (calculate_buriedness_from_psp_count count_psp self h nd len cnt rc = Inr (s2, h2, ret2) \<longrightarrow>
      (ret2 = None) = (\<not> rc) \<and>
      (\<exists>v. buriedness_of count_psp self h nd len cnt = Inr v
          \<and> deref h2 (grid_buriedness s2) = Some v
          \<and> (rc \<longrightarrow> deref h2 ret2 = Some v \<and> ret2 \<noteq> grid_buriedness s2)))"
  by (auto simp: calculate_vacancy_Inr calculate_buriedness_Inr deref_def nth_append)

theorem return_value_follows_return_copy_witness:
  "calculate_vacancy_from_energy exact_np demo [] [''A'', ''e''] (Finite (1 / 2)) (Some ''sum'') False
     = Inr (demo_classified, [demo_vacancy], None)
   \<and> deref [demo_vacancy] (grid_vacancy demo_classified) = Some demo_vacancy
   \<and> calculate_buriedness_from_psp_count one_event_where_vacant demo_classified
         [demo_vacancy, demo_vacancy] 3 2 1 True
     = Inr (demo_analysed, [demo_vacancy, demo_vacancy, demo_buried, demo_buried], Some 3)
   \<and> deref [demo_vacancy, demo_vacancy, demo_buried, demo_buried] (grid_buriedness demo_analysed)
       = Some demo_buried
   \<and> deref [demo_vacancy, demo_vacancy, demo_buried, demo_buried] (Some 3) = Some demo_buried
   \<and> Some 3 \<noteq> grid_buriedness demo_analysed"
proof -
  have v: "calculate_vacancy_from_energy exact_np demo [] [''A'', ''e''] (Finite (1 / 2)) (Some ''sum'') False
     = Inr (demo_classified, [demo_vacancy], None)"
    using demo_classify [of False] by simp
  note b = demo_analyse_copy
  have "vacancy_of exact_np demo [''A'', ''e''] (Finite (1 / 2)) (Some ''sum'') = Inr demo_vacancy"
    by (rule demo_vacancy_of_sum)
  moreover have "buriedness_of one_event_where_vacant demo_classified [demo_vacancy, demo_vacancy] 3 2 1
                   = Inr demo_buried"
    using demo_buriedness_of [of "[demo_vacancy, demo_vacancy]"] by simp
  ultimately show ?thesis
    using v b
      return_value_follows_return_copy [of exact_np demo "[]" "[''A'', ''e'']" "Finite (1 / 2)"
        "Some ''sum''" False demo_classified "[demo_vacancy]" None
        one_event_where_vacant 3 2 1 demo_classified "[demo_vacancy]" None]
      return_value_follows_return_copy [of exact_np demo_classified "[demo_vacancy, demo_vacancy]"
        "[]" "Finite 0" None True demo_classified "[]" None
        one_event_where_vacant 3 2 1 demo_analysed
        "[demo_vacancy, demo_vacancy, demo_buried, demo_buried]" "Some 3"]
    by simp
qed

text \<open>
  C9. A successful call of either method leaves every array that was in the store before
  the call as it was (so nothing returned or stored earlier changes when a
  classification or an analysis is run again), binds its attribute to a newly allocated
  array, and leaves the other attribute alone. A returned copy is a further new array:
  writing anything to it changes neither the array the attribute refers to nor any
  array that existed before the call.
\<close>

theorem returned_copy_detached:
  "(calculate_vacancy_from_energy np self h refs c m rc = Inr (s1, h1, ret) \<longrightarrow>
      length h \<le> length h1 \<and> (\<forall>a<length h. h1 ! a = h ! a)
      \<and> grid_vacancy s1 = Some (length h) \<and> grid_buriedness s1 = grid_buriedness self
      \<and> (\<forall>b. ret = Some b \<longrightarrow> length h < b \<and> b < length h1
            \<and> (\<forall>x. deref (h1[b := x]) (grid_vacancy s1) = deref h1 (grid_vacancy s1))
            \<and> (\<forall>x. \<forall>a<length h. (h1[b := x]) ! a = h ! a)))
   \<and> (calculate_buriedness_from_psp_count count_psp self h nd len cnt rc = Inr (s2, h2, ret2) \<longrightarrow>
      length h \<le> length h2 \<and> (\<forall>a<length h. h2 ! a = h ! a)
      \<and> grid_buriedness s2 = Some (length h) \<and> grid_vacancy s2 = grid_vacancy self
      \<and> (\<forall>b. ret2 = Some b \<longrightarrow> length h < b \<and> b < length h2
            \<and> (\<forall>x. deref (h2[b := x]) (grid_buriedness s2) = deref h2 (grid_buriedness s2))
            \<and> (\<forall>x. \<forall>a<length h. (h2[b := x]) ! a = h ! a)))"
  by (auto simp: calculate_vacancy_Inr calculate_buriedness_Inr deref_def nth_append nth_list_update)

theorem returned_copy_detached_witness:
  "calculate_vacancy_from_energy exact_np demo [] [''A'', ''e''] (Finite (1 / 2)) (Some ''sum'') True
     = Inr (demo_classified, [demo_vacancy, demo_vacancy], Some 1)
   \<and> grid_vacancy demo_classified = Some 0
   \<and> (\<forall>x. deref ([demo_vacancy, demo_vacancy][1 := x]) (grid_vacancy demo_classified)
            = Some demo_vacancy)
   \<and> calculate_buriedness_from_psp_count one_event_where_vacant demo_classified
         [demo_vacancy, demo_vacancy] 3 2 1 True
     = Inr (demo_analysed, [demo_vacancy, demo_vacancy, demo_buried, demo_buried], Some 3)
   \<and> [demo_vacancy, demo_vacancy, demo_buried, demo_buried] ! 0 = demo_vacancy
   \<and> [demo_vacancy, demo_vacancy, demo_buried, demo_buried] ! 1 = demo_vacancy
   \<and> (\<forall>x. deref ([demo_vacancy, demo_vacancy, demo_buried, demo_buried][3 := x])
              (grid_buriedness demo_analysed) = Some demo_buried)"
  using demo_classify_copy demo_analyse_copy
    returned_copy_detached [of exact_np demo "[]" "[''A'', ''e'']" "Finite (1 / 2)" "Some ''sum''"
      True demo_classified "[demo_vacancy, demo_vacancy]" "Some 1"
      one_event_where_vacant 3 2 1 demo_classified "[]" None]
    returned_copy_detached [of exact_np demo_classified "[demo_vacancy, demo_vacancy]" "[]"
      "Finite 0" None True demo_classified "[]" None
      one_event_where_vacant 3 2 1 demo_analysed
      "[demo_vacancy, demo_vacancy, demo_buried, demo_buried]" "Some 3"]
  by (simp add: deref_def)

section \<open>The stored volume against the specification's scalar\<close>

lemma bool_index_Cons [simp]:
  "bool_index (v # vs) (b # bs) = (if b then v # bool_index vs bs else bool_index vs bs)"
  by (simp add: bool_index_def)

lemma bool_index_Nil [simp]: "bool_index [] bs = []" "bool_index vs [] = []"
  by (simp_all add: bool_index_def)

lemma np_isin_member: "np_isin names refs False = map (\<lambda>n. n \<in> set refs) names"
  by (simp add: np_isin_def)

lemma bool_index_named:
  "bool_index vs (map (\<lambda>n. n \<in> set refs) names) = named_values refs names vs"
proof (induction names arbitrary: vs)
  case Nil
  show ?case by (simp add: named_values_def)
next
  case (Cons n names)
  show ?case
  proof (cases vs)
    case Nil
    then show ?thesis by (simp add: named_values_def)
  next
    case (Cons v vs')
    with Cons.IH [of vs'] show ?thesis by (simp add: named_values_def)
  qed
qed



lemma selected_count:
  assumes "distinct ns" and "distinct refs" and "set refs \<subseteq> set ns"
  shows "length (filter (\<lambda>b. b) (map (\<lambda>n. n \<in> set refs) ns)) = length refs"
proof -
  have "length (filter (\<lambda>b. b) (map (\<lambda>n. n \<in> set refs) ns))
          = length (filter (\<lambda>n. n \<in> set refs) ns)"
    by (simp add: filter_map o_def)
  also have "\<dots> = card ({n. n \<in> set refs} \<inter> set ns)"
    using assms(1) by (rule distinct_length_filter)
  also have "{n. n \<in> set refs} \<inter> set ns = set refs"
    using assms(3) by auto
  also have "card (set refs) = length refs"
    using assms(2) by (rule distinct_card)
  finally show ?thesis .
qed

lemma vacancy_of_valid:
  assumes "grid self = Array4 d c ps" and "c = length (type_energy_grids self)"
    and "reducing_op m = Some f" and "set refs \<subseteq> set (type_energy_grids self)"
  shows "vacancy_of np self refs cutoff (Some m) =
     (let names = type_energy_grids self;
          k = length (filter (\<lambda>b. b) (map (\<lambda>n. n \<in> set refs) names))
      in if k = 1
         then Inr (A4 (Array4 d 1 (map (\<lambda>v. map (\<lambda>x. np_less x cutoff) (named_values refs names v)) ps)))
         else if k = 0 \<and> (f = Np_max \<or> f = Np_min) then Inl ValueError_zero_size_reduction
         else Inr (A3 (Array3 d (map (\<lambda>v. np_less (reduce_row np f (named_values refs names v)) cutoff) ps))))"
  using assms
  by (simp add: vacancy_of_def np_any_invert np_isin_member energy_vals_of_def Let_def o_def
      bool_index_named)



lemma demo_wf:
  "wf_array4 (grid demo)" "nchan (grid demo) = length (type_energy_grids demo)"
  "distinct (type_energy_grids demo)"
  by (simp_all add: demo_def demo_grid_def)

lemma demo_two_channels:
  "2 \<le> length [''A'', ''e'']" "distinct [''A'', ''e'']"
  "set [''A'', ''e''] \<subseteq> set (type_energy_grids demo)" "[''A'', ''e''] \<noteq> []"
  by (simp_all add: demo_def)








section \<open>Shape and mode in the cases that work\<close>

text \<open>
  The reducing branch drops the channel axis: with two or more distinct, known channel
  names and a recognised mode, the stored volume has three dimensions and its shape is
  the grid's shape without the channel axis.
\<close>

theorem multi_channel_volume_shape:
  assumes wf: "wf_array4 (grid self)"
    and nc: "nchan (grid self) = length (type_energy_grids self)"
    and dn: "distinct (type_energy_grids self)"
    and two: "2 \<le> length channel_names"
    and dr: "distinct channel_names"
    and kn: "set channel_names \<subseteq> set (type_energy_grids self)"
    and rop: "reducing_op m = Some f"
  shows "\<exists>s1 h1 ret vac.
           calculate_vacancy_from_energy np self h channel_names cutoff (Some m) rc = Inr (s1, h1, ret)
           \<and> deref h1 (grid_vacancy s1) = Some vac
           \<and> ndim vac = 3 \<and> shape vac = take 3 (shape4 (grid self))"
proof -
  obtain d c ps where g: "grid self = Array4 d c ps" by (cases "grid self")
  obtain nx ny nz where d: "d = (nx, ny, nz)" by (cases d)
  let ?names = "type_energy_grids self"
  let ?sel = "map (\<lambda>n. n \<in> set channel_names) ?names"
  let ?vac = "A3 (Array3 d (map (\<lambda>v. np_less (reduce_row np f
                                                 (named_values channel_names ?names v)) cutoff) ps))"
  from nc g have c: "c = length ?names" by simp
  have k: "length (filter (\<lambda>b. b) ?sel) = length channel_names"
    using dn dr kn by (rule selected_count)
  from two have n1: "length channel_names \<noteq> 1" and n0: "length channel_names \<noteq> 0"
    by auto
  have v: "vacancy_of np self channel_names cutoff (Some m) = Inr ?vac"
    using n1 n0 unfolding vacancy_of_valid [OF g c rop kn, of np cutoff] Let_def k by simp
  let ?h1 = "if rc then h @ [?vac, ?vac] else h @ [?vac]"
  have "calculate_vacancy_from_energy np self h channel_names cutoff (Some m) rc
          = Inr (self\<lparr>grid_vacancy := Some (length h)\<rparr>, ?h1,
                 if rc then Some (Suc (length h)) else None)"
    using v by (simp add: calculate_vacancy_Inr)
  moreover have "deref ?h1 (grid_vacancy (self\<lparr>grid_vacancy := Some (length h)\<rparr>)) = Some ?vac"
    by (simp add: deref_def nth_append)
  moreover have "ndim ?vac = 3" "shape ?vac = take 3 (shape4 (grid self))"
    using g d by (simp_all add: ndim_def)
  ultimately show ?thesis by blast
qed

theorem multi_channel_volume_shape_witness:
  "wf_array4 (grid demo) \<and> nchan (grid demo) = length (type_energy_grids demo)
   \<and> distinct (type_energy_grids demo)
   \<and> 2 \<le> length [''A'', ''e''] \<and> distinct [''A'', ''e'']
   \<and> set [''A'', ''e''] \<subseteq> set (type_energy_grids demo)
   \<and> reducing_op ''sum'' = Some Np_sum
   \<and> (\<exists>s1 h1 ret vac.
         calculate_vacancy_from_energy exact_np demo [] [''A'', ''e''] (Finite (1 / 2)) (Some ''sum'') False
           = Inr (s1, h1, ret)
         \<and> deref h1 (grid_vacancy s1) = Some vac
         \<and> ndim vac = 3 \<and> shape vac = take 3 (shape4 (grid demo)))
   \<and> shape demo_vacancy = [1, 1, 3] \<and> shape4 (grid demo) = [1, 1, 3, 3]"
proof -
  have rop: "reducing_op ''sum'' = Some Np_sum" by (simp add: reducing_op_def)
  note hyps = demo_wf demo_two_channels(1-3) rop
  have s: "shape demo_vacancy = [1, 1, 3]" "shape4 (grid demo) = [1, 1, 3, 3]"
    by (simp_all add: demo_vacancy_def demo_def demo_grid_def)
  show ?thesis
    using hyps s multi_channel_volume_shape [OF hyps, of exact_np "[]" "Finite (1 / 2)" False]
    by (intro conjI)
qed

lemma energy_vals_of_single:
  "nchan sub = 1 \<Longrightarrow> energy_vals_of np mode sub = Inr (A4 sub)"
  by (simp add: energy_vals_of_def)

lemma index_last_axis_nchan:
  "index_last_axis g sel = Inr sub \<Longrightarrow> nchan sub = length (filter (\<lambda>b. b) sel)"
  by (cases g) (auto split: if_splits)

text \<open>
  Among the recognised modes the mode does not matter for a single channel, and neither
  do numpy's sum and mean: with one known channel name and distinct channel names in the
  grid, any two recognised modes give the same outcome.
\<close>

theorem single_channel_recognised_modes_agree:
  assumes "reducing_op m1 = Some f1" and "reducing_op m2 = Some f2"
    and "distinct (type_energy_grids self)" and "r \<in> set (type_energy_grids self)"
  shows "calculate_vacancy_from_energy np1 self h [r] cutoff (Some m1) rc
           = calculate_vacancy_from_energy np2 self h [r] cutoff (Some m2) rc"
proof -
  let ?sel = "np_isin (type_energy_grids self) [r] False"
  have k: "length (filter (\<lambda>b. b) ?sel) = 1"
    using selected_count [of "type_energy_grids self" "[r]"] assms(3,4)
    by (simp add: np_isin_member)
  have "energy_vals_of np1 (Some m1) sub = energy_vals_of np2 (Some m2) sub"
    if "index_last_axis (grid self) ?sel = Inr sub" for sub
    using index_last_axis_nchan [OF that] k by (simp add: energy_vals_of_single)
  then have "vacancy_of np1 self [r] cutoff (Some m1) = vacancy_of np2 self [r] cutoff (Some m2)"
    using assms(1,2) by (simp add: vacancy_of_def Let_def split: sum.splits)
  then show ?thesis by (simp add: calculate_vacancy_from_energy_def)
qed

theorem single_channel_recognised_modes_agree_witness:
  "reducing_op ''max'' = Some Np_max \<and> reducing_op ''sum'' = Some Np_sum
   \<and> distinct (type_energy_grids demo) \<and> ''A'' \<in> set (type_energy_grids demo)
   \<and> calculate_vacancy_from_energy exact_np demo [] [''A''] (Finite (1 / 2)) (Some ''max'') False
       = calculate_vacancy_from_energy exact_np demo [] [''A''] (Finite (1 / 2)) (Some ''sum'') False
   \<and> calculate_vacancy_from_energy exact_np demo [] [''A''] (Finite (1 / 2)) (Some ''sum'') False
       = Inr (demo_classified, [demo_vacancy_single], None)"
proof -
  have a: "reducing_op ''max'' = Some Np_max" and b: "reducing_op ''sum'' = Some Np_sum"
    by (simp_all add: reducing_op_def)
  have c: "distinct (type_energy_grids demo)" and d: "''A'' \<in> set (type_energy_grids demo)"
    by (simp_all add: demo_def)
  show ?thesis
    using a b c d demo_classify_single [of exact_np]
      single_channel_recognised_modes_agree [OF a b c d, of exact_np "[]" "Finite (1 / 2)" False exact_np]
    by (intro conjI)
qed

end
